theory Spec2Isabelle
  imports Main
begin

section \<open>The schema of the MySurgeon database\<close>

text \<open>
  The program is the SQL migration of the repository: seven tables, row level security
  enabled on each of them, eighteen policies and the trigger function
  \<open>handle_new_user\<close>. The tables are lists of rows, a row is a record with the columns of
  the \<open>CREATE TABLE\<close> statement, a nullable column is an \<open>option\<close>. Column names carry a
  short prefix of their table, because a record field name is global in a theory.
\<close>

type_synonym uuid = string
type_synonym timestamptz = int

text \<open>
  A value inside a JSONB document, as far as the operator \<open>->>\<close> tells values apart: JSON
  null, a JSON string, and every other value, which carries the text \<open>->>\<close> renders it to.
\<close>

datatype jvalue = JNull | JString string | JOther string

type_synonym jsonb = "string \<rightharpoonup> jvalue"

record profiles_row =
  p_id :: uuid
  p_email :: string
  p_full_name :: string
  p_role :: string
  p_profile_picture_url :: "string option"
  p_created_at :: timestamptz
  p_updated_at :: timestamptz

record patient_details_row =
  pd_user_id :: uuid
  pd_personal_info :: jsonb
  pd_physical_info :: jsonb
  pd_lifestyle_info :: jsonb
  pd_created_at :: timestamptz
  pd_updated_at :: timestamptz

record surgeon_details_row =
  sd_user_id :: uuid
  sd_specialty :: string
  sd_hospital_affiliation :: string
  sd_years_of_experience :: int
  sd_certifications :: "string list option"
  sd_bio :: "string option"
  sd_consultation_fee :: "int option"
  sd_created_at :: timestamptz
  sd_updated_at :: timestamptz

record vital_signs_row =
  vs_id :: uuid
  vs_patient_id :: uuid
  vs_heart_rate :: int
  vs_systolic_bp :: int
  vs_diastolic_bp :: int
  vs_body_temperature_celsius :: int
  vs_respiratory_rate :: int
  vs_notes :: "string option"
  vs_created_at :: timestamptz

record surgical_history_row =
  sh_id :: uuid
  sh_patient_id :: uuid
  sh_surgeon_id :: "uuid option"
  sh_procedure_name :: string
  sh_hospital :: string
  sh_surgery_date :: int
  sh_outcome :: "string option"
  sh_complications :: "string option"
  sh_notes :: "string option"
  sh_created_at :: timestamptz

record surgical_cases_row =
  sc_id :: uuid
  sc_patient_id :: uuid
  sc_surgeon_id :: "uuid option"
  sc_procedure_name :: string
  sc_scheduled_date :: "timestamptz option"
  sc_status :: string
  sc_priority :: "string option"
  sc_estimated_duration_minutes :: "int option"
  sc_notes :: "string option"
  sc_created_at :: timestamptz
  sc_updated_at :: timestamptz

record historical_surgical_data_row =
  hd_id :: uuid
  hd_hospital_id :: string
  hd_week_number :: int
  hd_year :: int
  hd_surgical_volume :: int
  hd_specialty :: "string option"
  hd_season :: "string option"
  hd_created_at :: timestamptz

text \<open>
  Modelled from the spec: the table \<open>auth.users\<close> of the identity store, which the
  migration references and hangs its trigger on but does not declare. Only the three
  columns that \<open>handle_new_user\<close> reads are kept: the identity's id, its email and its
  signup metadata (\<open>None\<close> is SQL NULL).
\<close>

record auth_users_row =
  au_id :: uuid
  au_email :: "string option"
  au_raw_user_meta_data :: "jsonb option"

record db =
  auth_users :: "auth_users_row list"
  profiles :: "profiles_row list"
  patient_details :: "patient_details_row list"
  surgeon_details :: "surgeon_details_row list"
  vital_signs :: "vital_signs_row list"
  surgical_history :: "surgical_history_row list"
  surgical_cases :: "surgical_cases_row list"
  historical_surgical_data :: "historical_surgical_data_row list"

datatype tbl =
    Profiles | Patient_details | Surgeon_details | Vital_signs
  | Surgical_history | Surgical_cases | Historical_surgical_data

datatype row =
    Profiles_r profiles_row
  | Patient_details_r patient_details_row
  | Surgeon_details_r surgeon_details_row
  | Vital_signs_r vital_signs_row
  | Surgical_history_r surgical_history_row
  | Surgical_cases_r surgical_cases_row
  | Historical_surgical_data_r historical_surgical_data_row

fun row_table :: "row \<Rightarrow> tbl" where
  "row_table (Profiles_r _) = Profiles"
| "row_table (Patient_details_r _) = Patient_details"
| "row_table (Surgeon_details_r _) = Surgeon_details"
| "row_table (Vital_signs_r _) = Vital_signs"
| "row_table (Surgical_history_r _) = Surgical_history"
| "row_table (Surgical_cases_r _) = Surgical_cases"
| "row_table (Historical_surgical_data_r _) = Historical_surgical_data"

fun table_rows :: "db \<Rightarrow> tbl \<Rightarrow> row list" where
  "table_rows d Profiles = map Profiles_r (profiles d)"
| "table_rows d Patient_details = map Patient_details_r (patient_details d)"
| "table_rows d Surgeon_details = map Surgeon_details_r (surgeon_details d)"
| "table_rows d Vital_signs = map Vital_signs_r (vital_signs d)"
| "table_rows d Surgical_history = map Surgical_history_r (surgical_history d)"
| "table_rows d Surgical_cases = map Surgical_cases_r (surgical_cases d)"
| "table_rows d Historical_surgical_data =
     map Historical_surgical_data_r (historical_surgical_data d)"

section \<open>The row level security policies\<close>

text \<open>
  A policy expression of the migration is one of four forms: the comparison of
  \<open>auth.uid()\<close> with a uuid column of the row, the sub-select
  \<open>EXISTS (SELECT 1 FROM public.profiles WHERE id = auth.uid() AND role ...)\<close> with the
  list of roles it accepts, the disjunction of two expressions, and \<open>true\<close>.
  \<open>FalseE\<close> is the qualification PostgreSQL uses when no policy applies (default deny).
\<close>

datatype column = Col_id | Col_user_id | Col_patient_id | Col_surgeon_id

datatype expr =
    UidEq column
  | ExistsProfileRole "string list"
  | OrE expr expr
  | TrueE
  | FalseE

datatype command = Select | Insert | Update | Delete | All

datatype clause = Using | With_check

record policy =
  pol_name :: string
  pol_table :: tbl
  pol_cmd :: command
  pol_clause :: clause
  pol_expr :: expr

definition policies :: "policy list" where
  "policies = [
     \<lparr>pol_name = ''Users can view their own profile'', pol_table = Profiles,
      pol_cmd = Select, pol_clause = Using, pol_expr = UidEq Col_id\<rparr>,
     \<lparr>pol_name = ''Users can update their own profile'', pol_table = Profiles,
      pol_cmd = Update, pol_clause = Using, pol_expr = UidEq Col_id\<rparr>,
     \<lparr>pol_name = ''Users can insert their own profile'', pol_table = Profiles,
      pol_cmd = Insert, pol_clause = With_check, pol_expr = UidEq Col_id\<rparr>,
     \<lparr>pol_name = ''Surgeons can view other profiles'', pol_table = Profiles,
      pol_cmd = Select, pol_clause = Using, pol_expr = ExistsProfileRole [''surgeon'']\<rparr>,
     \<lparr>pol_name = ''Admins can view all profiles'', pol_table = Profiles,
      pol_cmd = All, pol_clause = Using, pol_expr = ExistsProfileRole [''admin'']\<rparr>,
     \<lparr>pol_name = ''Patients can manage their own details'', pol_table = Patient_details,
      pol_cmd = All, pol_clause = Using, pol_expr = UidEq Col_user_id\<rparr>,
     \<lparr>pol_name = ''Surgeons can view patient details'', pol_table = Patient_details,
      pol_cmd = Select, pol_clause = Using,
      pol_expr = ExistsProfileRole [''surgeon'', ''admin'']\<rparr>,
     \<lparr>pol_name = ''Surgeons can manage their own details'', pol_table = Surgeon_details,
      pol_cmd = All, pol_clause = Using, pol_expr = UidEq Col_user_id\<rparr>,
     \<lparr>pol_name = ''Public can view surgeon details'', pol_table = Surgeon_details,
      pol_cmd = Select, pol_clause = Using, pol_expr = TrueE\<rparr>,
     \<lparr>pol_name = ''Patients can view their own vital signs'', pol_table = Vital_signs,
      pol_cmd = Select, pol_clause = Using, pol_expr = UidEq Col_patient_id\<rparr>,
     \<lparr>pol_name = ''Patients can insert their own vital signs'', pol_table = Vital_signs,
      pol_cmd = Insert, pol_clause = With_check, pol_expr = UidEq Col_patient_id\<rparr>,
     \<lparr>pol_name = ''Healthcare providers can manage vital signs'', pol_table = Vital_signs,
      pol_cmd = All, pol_clause = Using,
      pol_expr = ExistsProfileRole [''surgeon'', ''admin'']\<rparr>,
     \<lparr>pol_name = ''Patients can view their own surgical history'',
      pol_table = Surgical_history,
      pol_cmd = Select, pol_clause = Using, pol_expr = UidEq Col_patient_id\<rparr>,
     \<lparr>pol_name = ''Surgeons can view and manage surgical history'',
      pol_table = Surgical_history,
      pol_cmd = All, pol_clause = Using,
      pol_expr = ExistsProfileRole [''surgeon'', ''admin'']\<rparr>,
     \<lparr>pol_name = ''Patients can view their own cases'', pol_table = Surgical_cases,
      pol_cmd = Select, pol_clause = Using, pol_expr = UidEq Col_patient_id\<rparr>,
     \<lparr>pol_name = ''Surgeons can manage their cases'', pol_table = Surgical_cases,
      pol_cmd = All, pol_clause = Using,
      pol_expr = OrE (UidEq Col_surgeon_id) (ExistsProfileRole [''admin''])\<rparr>,
     \<lparr>pol_name = ''Admins can manage historical data'',
      pol_table = Historical_surgical_data,
      pol_cmd = All, pol_clause = Using, pol_expr = ExistsProfileRole [''admin'']\<rparr>,
     \<lparr>pol_name = ''Surgeons can view historical data'',
      pol_table = Historical_surgical_data,
      pol_cmd = Select, pol_clause = Using,
      pol_expr = ExistsProfileRole [''surgeon'', ''admin'']\<rparr>]"

text \<open>
  The uuid a policy reads from a row: \<open>None\<close> when the column is NULL there (a surgeon
  reference that was set to NULL) or the row's table has no such column.
\<close>

fun column_uuid :: "column \<Rightarrow> row \<Rightarrow> uuid option" where
  "column_uuid Col_id (Profiles_r r) = Some (p_id r)"
| "column_uuid Col_id (Vital_signs_r r) = Some (vs_id r)"
| "column_uuid Col_id (Surgical_history_r r) = Some (sh_id r)"
| "column_uuid Col_id (Surgical_cases_r r) = Some (sc_id r)"
| "column_uuid Col_id (Historical_surgical_data_r r) = Some (hd_id r)"
| "column_uuid Col_user_id (Patient_details_r r) = Some (pd_user_id r)"
| "column_uuid Col_user_id (Surgeon_details_r r) = Some (sd_user_id r)"
| "column_uuid Col_patient_id (Vital_signs_r r) = Some (vs_patient_id r)"
| "column_uuid Col_patient_id (Surgical_history_r r) = Some (sh_patient_id r)"
| "column_uuid Col_patient_id (Surgical_cases_r r) = Some (sc_patient_id r)"
| "column_uuid Col_surgeon_id (Surgical_history_r r) = sh_surgeon_id r"
| "column_uuid Col_surgeon_id (Surgical_cases_r r) = sc_surgeon_id r"
| "column_uuid _ _ = None"

text \<open>
  The value of a policy expression for a caller and a row. The caller is \<open>auth.uid()\<close>:
  \<open>None\<close> for a request without an identity, and then every comparison with it is NULL,
  which a policy treats as false. The second argument is the list of \<open>profiles\<close> rows
  the sub-select ranges over.
\<close>

fun holds :: "uuid option \<Rightarrow> profiles_row list \<Rightarrow> row \<Rightarrow> expr \<Rightarrow> bool" where
  "holds uid ps r (UidEq c) =
     (case uid of None \<Rightarrow> False | Some u \<Rightarrow> column_uuid c r = Some u)"
| "holds uid ps r (ExistsProfileRole roles) =
     (case uid of None \<Rightarrow> False
      | Some u \<Rightarrow> list_ex (\<lambda>p. p_id p = u \<and> p_role p \<in> set roles) ps)"
| "holds uid ps r (OrE a b) = (holds uid ps r a \<or> holds uid ps r b)"
| "holds uid ps r TrueE = True"
| "holds uid ps r FalseE = False"

text \<open>
  The policies of a table that apply to a command are those declared for the command and
  those declared \<open>FOR ALL\<close>. All policies of the migration are permissive, so PostgreSQL
  joins the expressions of the applicable ones with OR; with no applicable policy the
  qualification is false. A policy with only a \<open>USING\<close> expression uses it for new rows
  as well, so one expression per policy decides both. \<open>row_permitted\<close> is the decision
  of the policies read as predicates, the way the migration writes them: the sub-select
  ranges over the whole \<open>profiles\<close> table.
\<close>

definition applies :: "tbl \<Rightarrow> command \<Rightarrow> policy \<Rightarrow> bool" where
  "applies t c p = (pol_table p = t \<and> (pol_cmd p = c \<or> pol_cmd p = All))"

definition applicable :: "tbl \<Rightarrow> command \<Rightarrow> policy list" where
  "applicable t c = filter (applies t c) policies"

definition security_qual :: "tbl \<Rightarrow> command \<Rightarrow> expr" where
  "security_qual t c = foldr OrE (map pol_expr (applicable t c)) FalseE"

definition row_permitted :: "uuid option \<Rightarrow> db \<Rightarrow> command \<Rightarrow> row \<Rightarrow> bool" where
  "row_permitted uid d c r = holds uid (profiles d) r (security_qual (row_table r) c)"

section \<open>Statements under row level security\<close>

datatype error =
    Infinite_recursion tbl
  | Rls_violation tbl
  | Not_null_violation string
  | Check_violation string
  | Unique_violation string
  | Foreign_key_violation string
  | Numeric_value_out_of_range string

text \<open>
  Before a statement runs, PostgreSQL expands the policies of each relation it reads.
  A policy expression with a sub-select reads a relation of its own (here always
  \<open>profiles\<close>, with a \<open>SELECT\<close>), whose policies are expanded in turn, by the same
  rules and for the same caller. The relations under expansion are kept in a list; when
  the policies of a relation that is already in the list have a sub-select again, the
  statement is refused with \<open>infinite recursion detected in policy for relation\<close>.
  \<open>None\<close> is an expansion without error.
\<close>

fun hassublinks :: "expr \<Rightarrow> bool" where
  "hassublinks (ExistsProfileRole _) = True"
| "hassublinks (OrE a b) = (hassublinks a \<or> hassublinks b)"
| "hassublinks _ = False"

definition all_tables :: "tbl list" where
  "all_tables = [Profiles, Patient_details, Surgeon_details, Vital_signs,
     Surgical_history, Surgical_cases, Historical_surgical_data]"

definition pending :: "tbl list \<Rightarrow> nat" where
  "pending active = length (filter (\<lambda>t. t \<notin> set active) all_tables)"

function expand_policies :: "tbl list \<Rightarrow> tbl \<Rightarrow> command \<Rightarrow> error option" where
  "expand_policies active t c =
     (if list_ex (\<lambda>p. hassublinks (pol_expr p)) (applicable t c) then
        (if t \<in> set active then Some (Infinite_recursion t)
         else expand_policies (t # active) Profiles Select)
      else None)"
  by pat_completeness auto

termination expand_policies
proof (relation "measure (\<lambda>(active, t, c). pending active)")
  show "wf (measure (\<lambda>(active, t, c). pending active))"
    by simp
next
  fix active :: "tbl list" and t :: tbl and c :: command
  assume fresh: "t \<notin> set active"
  have le: "length (filter (\<lambda>x. x \<notin> set (t # active)) xs)
      \<le> length (filter (\<lambda>x. x \<notin> set active) xs)" for xs
    by (induction xs) auto
  have less: "t \<in> set xs \<Longrightarrow> length (filter (\<lambda>x. x \<notin> set (t # active)) xs)
      < length (filter (\<lambda>x. x \<notin> set active) xs)" for xs
  proof (induction xs)
    case Nil
    then show ?case by simp
  next
    case (Cons a xs)
    show ?case
    proof (cases "a = t")
      case True
      with fresh le [of xs] show ?thesis by simp
    next
      case False
      with Cons show ?thesis by simp
    qed
  qed
  have "t \<in> set all_tables"
    by (cases t) (simp_all add: all_tables_def)
  then have "pending (t # active) < pending active"
    unfolding pending_def by (rule less)
  then show "((t # active, Profiles, Select), (active, t, c))
      \<in> measure (\<lambda>(active, t, c). pending active)"
    by simp
qed

text \<open>
  The rows of a table that the policies admit for a command, and \<open>SELECT * FROM t\<close>,
  which returns them.
\<close>

definition admitted :: "uuid option \<Rightarrow> db \<Rightarrow> command \<Rightarrow> tbl \<Rightarrow> row list" where
  "admitted uid d c t = filter (row_permitted uid d c) (table_rows d t)"

definition select_stmt :: "uuid option \<Rightarrow> db \<Rightarrow> tbl \<Rightarrow> error + row list" where
  "select_stmt uid d t =
     (case expand_policies [] t Select of
        Some e \<Rightarrow> Inl e
      | None \<Rightarrow> Inr (admitted uid d Select t))"

text \<open>
  A write is checked against the policies of its command. When it also needs the right
  to read the table, because its \<open>WHERE\<close> clause, the right-hand side of its \<open>SET\<close>
  clause or a \<open>RETURNING\<close> clause refers to a column, PostgreSQL applies the policies
  for \<open>SELECT\<close> as well, to the rows it looks for and to the rows it writes. A write
  that reads no column is checked against the policies of its command alone.
  \<open>No_where\<close> is a statement without a \<open>WHERE\<close> clause; \<open>Set_values\<close> assigns values
  that do not depend on the row, \<open>Set_exprs\<close> expressions over its columns.
\<close>

datatype where_clause = No_where | Where "row \<Rightarrow> bool"

datatype set_clause = Set_values "row \<Rightarrow> row" | Set_exprs "row \<Rightarrow> row"

fun where_holds :: "where_clause \<Rightarrow> row \<Rightarrow> bool" where
  "where_holds No_where r = True"
| "where_holds (Where w) r = w r"

fun where_reads :: "where_clause \<Rightarrow> bool" where
  "where_reads No_where = False"
| "where_reads (Where w) = True"

fun set_row :: "set_clause \<Rightarrow> row \<Rightarrow> row" where
  "set_row (Set_values f) r = f r"
| "set_row (Set_exprs f) r = f r"

fun set_reads :: "set_clause \<Rightarrow> bool" where
  "set_reads (Set_values f) = False"
| "set_reads (Set_exprs f) = True"

definition expand_stmt :: "tbl \<Rightarrow> command \<Rightarrow> bool \<Rightarrow> error option" where
  "expand_stmt t c reads =
     (case expand_policies [] t c of
        Some e \<Rightarrow> Some e
      | None \<Rightarrow> if reads then expand_policies [] t Select else None)"

definition stmt_permitted :: "uuid option \<Rightarrow> db \<Rightarrow> command \<Rightarrow> bool \<Rightarrow> row \<Rightarrow> bool" where
  "stmt_permitted uid d c reads r =
     (if reads then row_permitted uid d c r \<and> row_permitted uid d Select r
      else row_permitted uid d c r)"

subsection \<open>The constraints of the tables\<close>

text \<open>
  A row is a complete tuple: defaults are filled in and a column declared \<open>NOT NULL\<close>
  holds a value. What a row can still violate is the range of its numeric columns
  (\<open>INTEGER\<close> is 32 bits wide, a \<open>DECIMAL(p,2)\<close> column, kept here in hundredths, has
  \<open>p\<close> digits), the \<open>CHECK\<close> constraints, the primary key and the unique email of
  \<open>profiles\<close>, and the foreign keys. \<open>first_error\<close> reports the first failure of a
  list of checks.
\<close>

fun first_error :: "error option list \<Rightarrow> error option" where
  "first_error [] = None"
| "first_error (None # es) = first_error es"
| "first_error (Some e # es) = Some e"

definition range_int4 :: "string \<Rightarrow> int option \<Rightarrow> error option" where
  "range_int4 col v =
     (case v of
        None \<Rightarrow> None
      | Some n \<Rightarrow>
          if - 2147483648 \<le> n \<and> n \<le> 2147483647 then None
          else Some (Numeric_value_out_of_range col))"

definition range_decimal :: "nat \<Rightarrow> string \<Rightarrow> int option \<Rightarrow> error option" where
  "range_decimal p col v =
     (case v of
        None \<Rightarrow> None
      | Some n \<Rightarrow>
          if - (10 ^ p) < n \<and> n < 10 ^ p then None
          else Some (Numeric_value_out_of_range col))"

fun row_ranges :: "row \<Rightarrow> error option" where
  "row_ranges (Surgeon_details_r r) =
     first_error
       [range_int4 ''years_of_experience'' (Some (sd_years_of_experience r)),
        range_decimal 10 ''consultation_fee'' (sd_consultation_fee r)]"
| "row_ranges (Vital_signs_r r) =
     first_error
       [range_int4 ''heart_rate'' (Some (vs_heart_rate r)),
        range_int4 ''systolic_bp'' (Some (vs_systolic_bp r)),
        range_int4 ''diastolic_bp'' (Some (vs_diastolic_bp r)),
        range_decimal 4 ''body_temperature_celsius'' (Some (vs_body_temperature_celsius r)),
        range_int4 ''respiratory_rate'' (Some (vs_respiratory_rate r))]"
| "row_ranges (Surgical_cases_r r) =
     range_int4 ''estimated_duration_minutes'' (sc_estimated_duration_minutes r)"
| "row_ranges (Historical_surgical_data_r r) =
     first_error
       [range_int4 ''week_number'' (Some (hd_week_number r)),
        range_int4 ''year'' (Some (hd_year r)),
        range_int4 ''surgical_volume'' (Some (hd_surgical_volume r))]"
| "row_ranges _ = None"

definition role_check :: "string \<Rightarrow> bool" where
  "role_check r = (r \<in> set [''patient'', ''surgeon'', ''admin''])"

definition status_check :: "string \<Rightarrow> bool" where
  "status_check s =
     (s \<in> set [''proposed'', ''scheduled'', ''in_progress'', ''completed'', ''cancelled''])"

definition priority_check :: "string option \<Rightarrow> bool" where
  "priority_check p =
     (case p of None \<Rightarrow> True
      | Some s \<Rightarrow> s \<in> set [''low'', ''medium'', ''high'', ''emergency''])"

definition season_check :: "string option \<Rightarrow> bool" where
  "season_check p =
     (case p of None \<Rightarrow> True
      | Some s \<Rightarrow> s \<in> set [''spring'', ''summer'', ''fall'', ''winter''])"

fun row_checks :: "row \<Rightarrow> error option" where
  "row_checks (Profiles_r r) =
     (if role_check (p_role r) then None else Some (Check_violation ''profiles_role_check''))"
| "row_checks (Surgical_cases_r r) =
     first_error
       [if priority_check (sc_priority r) then None
        else Some (Check_violation ''surgical_cases_priority_check''),
        if status_check (sc_status r) then None
        else Some (Check_violation ''surgical_cases_status_check'')]"
| "row_checks (Historical_surgical_data_r r) =
     (if season_check (hd_season r) then None
      else Some (Check_violation ''historical_surgical_data_season_check''))"
| "row_checks _ = None"

fun row_key :: "row \<Rightarrow> uuid" where
  "row_key (Profiles_r r) = p_id r"
| "row_key (Patient_details_r r) = pd_user_id r"
| "row_key (Surgeon_details_r r) = sd_user_id r"
| "row_key (Vital_signs_r r) = vs_id r"
| "row_key (Surgical_history_r r) = sh_id r"
| "row_key (Surgical_cases_r r) = sc_id r"
| "row_key (Historical_surgical_data_r r) = hd_id r"

fun row_email :: "row \<Rightarrow> string option" where
  "row_email (Profiles_r r) = Some (p_email r)"
| "row_email _ = None"

fun pkey_name :: "tbl \<Rightarrow> string" where
  "pkey_name Profiles = ''profiles_pkey''"
| "pkey_name Patient_details = ''patient_details_pkey''"
| "pkey_name Surgeon_details = ''surgeon_details_pkey''"
| "pkey_name Vital_signs = ''vital_signs_pkey''"
| "pkey_name Surgical_history = ''surgical_history_pkey''"
| "pkey_name Surgical_cases = ''surgical_cases_pkey''"
| "pkey_name Historical_surgical_data = ''historical_surgical_data_pkey''"

text \<open>
  The unique indexes, checked against the other rows of the table: the primary key first,
  then the email of \<open>profiles\<close>.
\<close>

definition row_unique :: "row list \<Rightarrow> row \<Rightarrow> error option" where
  "row_unique others x =
     first_error
       [if list_ex (\<lambda>r. row_table r = row_table x \<and> row_key r = row_key x) others
        then Some (Unique_violation (pkey_name (row_table x))) else None,
        if list_ex (\<lambda>r. row_email x \<noteq> None \<and> row_email r = row_email x) others
        then Some (Unique_violation ''profiles_email_key'') else None]"

text \<open>
  The foreign keys of a table, with the column each constrains. \<open>profiles.id\<close>
  references \<open>auth.users\<close>, every other one \<open>profiles\<close>. A NULL reference is not
  checked, and on an update only a reference that changed is.
\<close>

fun fkeys :: "tbl \<Rightarrow> (string \<times> column) list" where
  "fkeys Profiles = [(''profiles_id_fkey'', Col_id)]"
| "fkeys Patient_details = [(''patient_details_user_id_fkey'', Col_user_id)]"
| "fkeys Surgeon_details = [(''surgeon_details_user_id_fkey'', Col_user_id)]"
| "fkeys Vital_signs = [(''vital_signs_patient_id_fkey'', Col_patient_id)]"
| "fkeys Surgical_history =
     [(''surgical_history_patient_id_fkey'', Col_patient_id),
      (''surgical_history_surgeon_id_fkey'', Col_surgeon_id)]"
| "fkeys Surgical_cases =
     [(''surgical_cases_patient_id_fkey'', Col_patient_id),
      (''surgical_cases_surgeon_id_fkey'', Col_surgeon_id)]"
| "fkeys Historical_surgical_data = []"

definition referenced :: "db \<Rightarrow> tbl \<Rightarrow> uuid list" where
  "referenced d t = (if t = Profiles then map au_id (auth_users d) else map p_id (profiles d))"

definition fkey_error :: "db \<Rightarrow> row option \<Rightarrow> row \<Rightarrow> string \<times> column \<Rightarrow> error option" where
  "fkey_error d old x k =
     (case column_uuid (snd k) x of
        None \<Rightarrow> None
      | Some v \<Rightarrow>
          if (case old of None \<Rightarrow> False
              | Some prev \<Rightarrow> column_uuid (snd k) prev = Some v) then None
          else if v \<in> set (referenced d (row_table x)) then None
          else Some (Foreign_key_violation (fst k)))"

definition row_fkeys :: "db \<Rightarrow> row option \<Rightarrow> row \<Rightarrow> error option" where
  "row_fkeys d old x = first_error (map (fkey_error d old x) (fkeys (row_table x)))"

subsection \<open>INSERT, UPDATE and DELETE\<close>

text \<open>
  \<open>INSERT INTO t VALUES (x) [RETURNING ...]\<close>. The policies are expanded first; then the
  values are converted to the types of their columns; then the new row must pass the
  policies, or the statement fails with \<open>new row violates row-level security policy\<close>;
  then come the \<open>CHECK\<close> constraints, the unique indexes and, at the end of the
  statement, the foreign keys. The result is the row written.
\<close>

definition insert_stmt :: "uuid option \<Rightarrow> db \<Rightarrow> row \<Rightarrow> bool \<Rightarrow> error + row" where
  "insert_stmt uid d x returning =
     (case first_error
        [expand_stmt (row_table x) Insert returning,
         row_ranges x,
         if stmt_permitted uid d Insert returning x then None
         else Some (Rls_violation (row_table x)),
         row_checks x,
         row_unique (table_rows d (row_table x)) x,
         row_fkeys d None x]
      of Some e \<Rightarrow> Inl e | None \<Rightarrow> Inr x)"

text \<open>
  \<open>DELETE FROM t [WHERE w] [RETURNING ...]\<close> removes the rows that the policies admit
  and that satisfy \<open>w\<close>, and passes over the others in silence. No foreign key stands
  in the way of a delete: every reference to \<open>profiles\<close> is declared \<open>ON DELETE CASCADE\<close>
  or \<open>ON DELETE SET NULL\<close>. The result is the rows removed; a caller without
  \<open>RETURNING\<close> learns their number.
\<close>

definition delete_stmt ::
  "uuid option \<Rightarrow> db \<Rightarrow> tbl \<Rightarrow> where_clause \<Rightarrow> bool \<Rightarrow> error + row list" where
  "delete_stmt uid d t wh returning =
     (let reads = (where_reads wh \<or> returning) in
      case expand_stmt t Delete reads of
        Some e \<Rightarrow> Inl e
      | None \<Rightarrow>
          Inr (filter (\<lambda>r. stmt_permitted uid d Delete reads r \<and> where_holds wh r)
                 (table_rows d t)))"

text \<open>
  \<open>UPDATE t SET ... [WHERE w] [RETURNING ...]\<close> goes through the table row by row. A row
  that the policies do not admit or that does not satisfy \<open>w\<close> stays as it is. For a row
  it updates, the new row is checked like an inserted one, its key against the other rows
  as they are at that moment; the foreign keys that changed are checked when all rows are
  done. The result is the new rows.
\<close>

definition new_row_error ::
  "uuid option \<Rightarrow> db \<Rightarrow> tbl \<Rightarrow> bool \<Rightarrow> row list \<Rightarrow> row \<Rightarrow> error option" where
  "new_row_error uid d t reads others x =
     first_error
       [row_ranges x,
        if stmt_permitted uid d Update reads x then None else Some (Rls_violation t),
        row_checks x,
        row_unique others x]"

fun update_rows ::
  "(row \<Rightarrow> bool) \<Rightarrow> (row \<Rightarrow> row) \<Rightarrow> (row list \<Rightarrow> row \<Rightarrow> error option) \<Rightarrow>
   row list \<Rightarrow> row list \<Rightarrow> error + (row \<times> row) list" where
  "update_rows hit f chk seen [] = Inr []"
| "update_rows hit f chk seen (r # rest) =
     (if hit r then
        (case chk (seen @ rest) (f r) of
           Some e \<Rightarrow> Inl e
         | None \<Rightarrow>
             (case update_rows hit f chk (seen @ [f r]) rest of
                Inl e \<Rightarrow> Inl e
              | Inr changes \<Rightarrow> Inr ((r, f r) # changes)))
      else update_rows hit f chk (seen @ [r]) rest)"

definition update_stmt ::
  "uuid option \<Rightarrow> db \<Rightarrow> tbl \<Rightarrow> where_clause \<Rightarrow> set_clause \<Rightarrow> bool \<Rightarrow> error + row list" where
  "update_stmt uid d t wh asg returning =
     (let reads = (where_reads wh \<or> set_reads asg \<or> returning) in
      case expand_stmt t Update reads of
        Some e \<Rightarrow> Inl e
      | None \<Rightarrow>
          (case update_rows
                  (\<lambda>r. stmt_permitted uid d Update reads r \<and> where_holds wh r)
                  (set_row asg) (new_row_error uid d t reads) [] (table_rows d t) of
             Inl e \<Rightarrow> Inl e
           | Inr changes \<Rightarrow>
               (case first_error (map (\<lambda>(old, new). row_fkeys d (Some old) new) changes) of
                  Some e \<Rightarrow> Inl e
                | None \<Rightarrow> Inr (map snd changes))))"

text \<open>
  The caller's own role, as the primary key of \<open>profiles\<close> makes it unique: the role of
  the one row with the caller's id.
\<close>

definition profiles_pkey :: "db \<Rightarrow> bool" where
  "profiles_pkey d = distinct (map p_id (profiles d))"

definition profile_role :: "db \<Rightarrow> uuid \<Rightarrow> string option" where
  "profile_role d u = map_option p_role (find (\<lambda>p. p_id p = u) (profiles d))"

section \<open>The signup trigger\<close>

text \<open>
  \<open>json_field_text j k\<close> is \<open>j ->> k\<close>: NULL when the document is NULL, has no such key
  or holds JSON null there. \<open>coalesce\<close> is the two-argument \<open>COALESCE\<close>.
\<close>

definition json_field_text :: "jsonb option \<Rightarrow> string \<Rightarrow> string option" where
  "json_field_text j k =
     (case j of
        None \<Rightarrow> None
      | Some obj \<Rightarrow>
          (case obj k of
             None \<Rightarrow> None
           | Some JNull \<Rightarrow> None
           | Some (JString s) \<Rightarrow> Some s
           | Some (JOther s) \<Rightarrow> Some s))"

definition coalesce :: "'a option \<Rightarrow> 'a \<Rightarrow> 'a" where
  "coalesce x y = (case x of None \<Rightarrow> y | Some v \<Rightarrow> v)"

text \<open>
  \<open>INSERT INTO public.profiles (id, email, full_name, role) VALUES (...)\<close> run by the
  owner of the table, as the \<open>SECURITY DEFINER\<close> trigger function does: no policy
  applies, the constraints of the table do. The other columns take their defaults: no
  picture, and the time of the insert in both timestamps.
\<close>

definition insert_profiles ::
  "timestamptz \<Rightarrow> db \<Rightarrow> uuid \<Rightarrow> string option \<Rightarrow> string \<Rightarrow> string \<Rightarrow> error + db" where
  "insert_profiles now d i e n r =
     (case e of
        None \<Rightarrow> Inl (Not_null_violation ''email'')
      | Some em \<Rightarrow>
          if \<not> role_check r then Inl (Check_violation ''profiles_role_check'')
          else if i \<in> set (map p_id (profiles d)) then Inl (Unique_violation ''profiles_pkey'')
          else if em \<in> set (map p_email (profiles d))
            then Inl (Unique_violation ''profiles_email_key'')
          else if i \<notin> set (map au_id (auth_users d))
            then Inl (Foreign_key_violation ''profiles_id_fkey'')
          else Inr (d\<lparr>profiles := profiles d @
                 [\<lparr>p_id = i, p_email = em, p_full_name = n, p_role = r,
                   p_profile_picture_url = None, p_created_at = now,
                   p_updated_at = now\<rparr>]\<rparr>))"

definition handle_new_user :: "timestamptz \<Rightarrow> db \<Rightarrow> auth_users_row \<Rightarrow> error + db" where
  "handle_new_user now d new =
     insert_profiles now d (au_id new) (au_email new)
       (coalesce (json_field_text (au_raw_user_meta_data new) ''full_name'') ''Unknown User'')
       (coalesce (json_field_text (au_raw_user_meta_data new) ''role'') ''patient'')"

text \<open>
  Modelled from the spec: the identity store's \<open>INSERT INTO auth.users\<close>, which is not
  part of the migration. The trigger \<open>on_auth_user_created\<close> runs \<open>handle_new_user\<close>
  after the row is inserted and inside the same statement, so an error of the trigger
  aborts the statement: the result is the error and the database as it was.
\<close>

definition insert_auth_users ::
  "timestamptz \<Rightarrow> db \<Rightarrow> auth_users_row \<Rightarrow> error option \<times> db" where
  "insert_auth_users now d new =
     (if au_id new \<in> set (map au_id (auth_users d))
      then (Some (Unique_violation ''users_pkey''), d)
      else (case handle_new_user now (d\<lparr>auth_users := auth_users d @ [new]\<rparr>) new of
              Inl e \<Rightarrow> (Some e, d)
            | Inr d' \<Rightarrow> (None, d')))"

section \<open>A small database\<close>

text \<open>
  Three users with a profile (a patient, a surgeon and an admin), two vital-sign rows of
  which one belongs to the patient \<open>U1\<close>, and one surgical case of patient \<open>U1\<close> that is
  assigned to a surgeon other than \<open>U2\<close>.
\<close>

definition example_profile :: "uuid \<Rightarrow> string \<Rightarrow> profiles_row" where
  "example_profile i r =
     \<lparr>p_id = i, p_email = i @ ''@x.com'', p_full_name = ''Name of '' @ i, p_role = r,
      p_profile_picture_url = None, p_created_at = 0, p_updated_at = 0\<rparr>"

definition example_vital :: "uuid \<Rightarrow> uuid \<Rightarrow> vital_signs_row" where
  "example_vital i pat =
     \<lparr>vs_id = i, vs_patient_id = pat, vs_heart_rate = 70, vs_systolic_bp = 120,
      vs_diastolic_bp = 80, vs_body_temperature_celsius = 3700, vs_respiratory_rate = 16,
      vs_notes = None, vs_created_at = 0\<rparr>"

definition example_history :: "uuid \<Rightarrow> uuid \<Rightarrow> surgical_history_row" where
  "example_history i pat =
     \<lparr>sh_id = i, sh_patient_id = pat, sh_surgeon_id = None,
      sh_procedure_name = ''Appendectomy'', sh_hospital = ''HOSP001'', sh_surgery_date = 0,
      sh_outcome = None, sh_complications = None, sh_notes = None, sh_created_at = 0\<rparr>"

definition example_case :: "uuid \<Rightarrow> uuid \<Rightarrow> uuid option \<Rightarrow> surgical_cases_row" where
  "example_case i pat sur =
     \<lparr>sc_id = i, sc_patient_id = pat, sc_surgeon_id = sur,
      sc_procedure_name = ''Appendectomy'', sc_scheduled_date = None,
      sc_status = ''proposed'', sc_priority = None,
      sc_estimated_duration_minutes = None, sc_notes = None, sc_created_at = 0,
      sc_updated_at = 0\<rparr>"

definition example_details :: "uuid \<Rightarrow> patient_details_row" where
  "example_details i =
     \<lparr>pd_user_id = i, pd_personal_info = Map.empty, pd_physical_info = Map.empty,
      pd_lifestyle_info = Map.empty, pd_created_at = 0, pd_updated_at = 0\<rparr>"

definition example_surgeon :: "uuid \<Rightarrow> surgeon_details_row" where
  "example_surgeon i =
     \<lparr>sd_user_id = i, sd_specialty = ''General Surgery'',
      sd_hospital_affiliation = ''HOSP001'', sd_years_of_experience = 0,
      sd_certifications = None, sd_bio = None, sd_consultation_fee = None,
      sd_created_at = 0, sd_updated_at = 0\<rparr>"

definition example_user :: "uuid \<Rightarrow> jsonb option \<Rightarrow> auth_users_row" where
  "example_user i meta =
     \<lparr>au_id = i, au_email = Some (i @ ''@x.com''), au_raw_user_meta_data = meta\<rparr>"

definition example_db :: db where
  "example_db =
     \<lparr>auth_users = [example_user ''U1'' None, example_user ''U2'' None,
        example_user ''U3'' None],
      profiles = [example_profile ''U1'' ''patient'', example_profile ''U2'' ''surgeon'',
        example_profile ''U3'' ''admin''],
      patient_details = [],
      surgeon_details = [],
      vital_signs = [example_vital ''V1'' ''U1'', example_vital ''V2'' ''U4''],
      surgical_history = [],
      surgical_cases = [example_case ''C1'' ''U1'' (Some ''U5'')],
      historical_surgical_data = []\<rparr>"

section \<open>The decision of the policies\<close>

lemma holds_foldr_OrE:
  "holds uid ps r (foldr OrE es FalseE) = (\<exists>e\<in>set es. holds uid ps r e)"
  by (induction es) simp_all

lemma qual_profiles:
  "security_qual Profiles Select =
     OrE (UidEq Col_id) (OrE (ExistsProfileRole [''surgeon''])
       (OrE (ExistsProfileRole [''admin'']) FalseE))"
  "security_qual Profiles Update =
     OrE (UidEq Col_id) (OrE (ExistsProfileRole [''admin'']) FalseE)"
  "security_qual Profiles Insert =
     OrE (UidEq Col_id) (OrE (ExistsProfileRole [''admin'']) FalseE)"
  "security_qual Profiles Delete = OrE (ExistsProfileRole [''admin'']) FalseE"
  "security_qual Profiles All = OrE (ExistsProfileRole [''admin'']) FalseE"
  by (simp_all add: security_qual_def applicable_def applies_def policies_def)

lemma qual_vital_signs:
  "security_qual Vital_signs Select =
     OrE (UidEq Col_patient_id) (OrE (ExistsProfileRole [''surgeon'', ''admin'']) FalseE)"
  "security_qual Vital_signs Insert =
     OrE (UidEq Col_patient_id) (OrE (ExistsProfileRole [''surgeon'', ''admin'']) FalseE)"
  "security_qual Vital_signs Update = OrE (ExistsProfileRole [''surgeon'', ''admin'']) FalseE"
  "security_qual Vital_signs Delete = OrE (ExistsProfileRole [''surgeon'', ''admin'']) FalseE"
  "security_qual Vital_signs All = OrE (ExistsProfileRole [''surgeon'', ''admin'']) FalseE"
  by (simp_all add: security_qual_def applicable_def applies_def policies_def)

lemma qual_surgical_history:
  "security_qual Surgical_history Select =
     OrE (UidEq Col_patient_id) (OrE (ExistsProfileRole [''surgeon'', ''admin'']) FalseE)"
  "c \<noteq> Select \<Longrightarrow>
     security_qual Surgical_history c = OrE (ExistsProfileRole [''surgeon'', ''admin'']) FalseE"
  by (cases c; simp add: security_qual_def applicable_def applies_def policies_def)+

lemma qual_surgical_cases:
  "security_qual Surgical_cases Select =
     OrE (UidEq Col_patient_id)
       (OrE (OrE (UidEq Col_surgeon_id) (ExistsProfileRole [''admin''])) FalseE)"
  "c \<noteq> Select \<Longrightarrow>
     security_qual Surgical_cases c =
       OrE (OrE (UidEq Col_surgeon_id) (ExistsProfileRole [''admin''])) FalseE"
  by (cases c; simp add: security_qual_def applicable_def applies_def policies_def)+

lemma find_pkey:
  "distinct (map p_id ps) \<Longrightarrow> p \<in> set ps \<Longrightarrow> find (\<lambda>q. p_id q = p_id p) ps = Some p"
  by (induction ps) (auto simp: rev_image_eqI)

lemma exists_profile_role:
  assumes "profiles_pkey d"
  shows "list_ex (\<lambda>p. p_id p = u \<and> p_role p \<in> set roles) (profiles d) \<longleftrightarrow>
     (\<exists>r. profile_role d u = Some r \<and> r \<in> set roles)"
proof
  assume "list_ex (\<lambda>p. p_id p = u \<and> p_role p \<in> set roles) (profiles d)"
  then obtain p where p: "p \<in> set (profiles d)" "p_id p = u" "p_role p \<in> set roles"
    by (auto simp: list_ex_iff)
  from assms p(1) have "find (\<lambda>q. p_id q = p_id p) (profiles d) = Some p"
    unfolding profiles_pkey_def by (rule find_pkey)
  with p show "\<exists>r. profile_role d u = Some r \<and> r \<in> set roles"
    by (simp add: profile_role_def)
next
  assume "\<exists>r. profile_role d u = Some r \<and> r \<in> set roles"
  then obtain p where "find (\<lambda>q. p_id q = u) (profiles d) = Some p" "p_role p \<in> set roles"
    by (auto simp: profile_role_def)
  then have "p \<in> set (profiles d) \<and> p_id p = u \<and> p_role p \<in> set roles"
    by (auto simp: find_Some_iff)
  then show "list_ex (\<lambda>p. p_id p = u \<and> p_role p \<in> set roles) (profiles d)"
    by (auto simp: list_ex_iff)
qed

text \<open>
  The decision of the policies is the OR of the policies declared for the table and for
  the command or for ALL.
\<close>

lemma security_qual_or:
  "row_permitted uid d c r \<longleftrightarrow>
     (\<exists>p\<in>set policies. applies (row_table r) c p \<and> holds uid (profiles d) r (pol_expr p))"
  by (auto simp add: row_permitted_def security_qual_def applicable_def holds_foldr_OrE)

lemma holds_role:
  "profiles_pkey d \<Longrightarrow>
   holds (Some u) (profiles d) r (ExistsProfileRole roles) \<longleftrightarrow>
     (\<exists>x. profile_role d u = Some x \<and> x \<in> set roles)"
  using exists_profile_role [of d u roles] by simp

text \<open>
  In this schema every row that the policies admit for an INSERT, an UPDATE or a DELETE
  is also admitted for a SELECT, so applying the SELECT policies to a write that reads
  the table changes no decision, and a row that a caller cannot read is a row that none
  of the caller's writes is admitted for.
\<close>

lemma write_implies_read:
  assumes "c = Insert \<or> c = Update \<or> c = Delete" and "row_permitted uid d c r"
  shows "row_permitted uid d Select r"
  using assms
  by (cases r; cases uid;
      auto simp add: row_permitted_def security_qual_def applicable_def applies_def
        policies_def)

lemma stmt_permitted_eq:
  "c = Insert \<or> c = Update \<or> c = Delete \<Longrightarrow>
   stmt_permitted uid d c reads r = row_permitted uid d c r"
  using write_implies_read [of c uid d r] by (auto simp add: stmt_permitted_def)

lemma example_db_pkey: "profiles_pkey example_db"
  by (simp add: profiles_pkey_def example_db_def example_profile_def)

lemma example_db_roles:
  "profile_role example_db ''U1'' = Some ''patient''"
  "profile_role example_db ''U2'' = Some ''surgeon''"
  "profile_role example_db ''U3'' = Some ''admin''"
  "profile_role example_db ''U4'' = None"
  by (simp_all add: profile_role_def example_db_def example_profile_def)

text \<open>
  C3. An update of a surgical case by a caller who is not the surgeon of the case and
  whose profile role is not admin is denied: no policy of \<open>surgical_cases\<close> that covers
  UPDATE is true for the caller and the row. Nothing is assumed about the patient of the
  case, so the caller may be that patient.
\<close>

theorem case_update_denied:
  assumes "profiles_pkey d"
    and "sc_surgeon_id R \<noteq> Some c"
    and "profile_role d c \<noteq> Some ''admin''"
  shows "\<not> row_permitted (Some c) d Update (Surgical_cases_r R)"
  using assms
  by (simp add: row_permitted_def qual_surgical_cases holds_role del: holds.simps(2))

theorem case_update_denied_witness:
  "profiles_pkey example_db
   \<and> sc_surgeon_id (example_case ''C1'' ''U1'' (Some ''U5'')) \<noteq> Some ''U1''
   \<and> profile_role example_db ''U1'' \<noteq> Some ''admin''
   \<and> sc_patient_id (example_case ''C1'' ''U1'' (Some ''U5'')) = ''U1''
   \<and> \<not> row_permitted (Some ''U1'') example_db Update
         (Surgical_cases_r (example_case ''C1'' ''U1'' (Some ''U5'')))"
  using case_update_denied [of example_db "example_case ''C1'' ''U1'' (Some ''U5'')" "''U1''"]
  by (simp add: example_db_pkey example_db_roles example_case_def)

text \<open>
  What the policies decide for a caller with the role surgeon who is neither the surgeon
  nor the patient of a surgical case: no command on the case, every command on every row
  of \<open>vital_signs\<close> and \<open>surgical_history\<close>.
\<close>

lemma surgeon_role_decision:
  assumes "profiles_pkey d" and "profile_role d c = Some ''surgeon''"
    and "sc_surgeon_id R \<noteq> Some c" and "sc_patient_id R \<noteq> c"
  shows "\<not> row_permitted (Some c) d op (Surgical_cases_r R)
     \<and> row_permitted (Some c) d op (Vital_signs_r v)
     \<and> row_permitted (Some c) d op (Surgical_history_r h)"
  using assms
  by (cases op; simp add: row_permitted_def qual_surgical_cases qual_vital_signs
      qual_surgical_history holds_role del: holds.simps(2))

text \<open>
  C10. A caller whose profile role is not admin cannot delete any \<open>profiles\<close> row, the
  own row included: the one policy of \<open>profiles\<close> that covers DELETE is the admin
  policy declared FOR ALL.
\<close>

theorem profile_delete_admin_only:
  assumes "profiles_pkey d" and "profile_role d c \<noteq> Some ''admin''"
  shows "\<not> row_permitted (Some c) d Delete (Profiles_r p)
     \<and> map pol_name (applicable Profiles Delete) = [''Admins can view all profiles'']"
  using assms
  by (simp add: row_permitted_def qual_profiles holds_role applicable_def
      applies_def policies_def del: holds.simps(2))

theorem profile_delete_admin_only_witness:
  "profiles_pkey example_db \<and> profile_role example_db ''U1'' \<noteq> Some ''admin''
   \<and> p_id (example_profile ''U1'' ''patient'') = ''U1''
   \<and> \<not> row_permitted (Some ''U1'') example_db Delete
         (Profiles_r (example_profile ''U1'' ''patient''))"
  using profile_delete_admin_only [of example_db "''U1''" "example_profile ''U1'' ''patient''"]
  by (simp add: example_db_pkey example_db_roles example_profile_def)

section \<open>Statements: the expansion of the policies\<close>

declare expand_policies.simps [simp del]

lemma sublink_profiles: "list_ex (\<lambda>p. hassublinks (pol_expr p)) (applicable Profiles c)"
  by (cases c; simp add: applicable_def applies_def policies_def)

lemma expand_profiles: "expand_policies active Profiles c = Some (Infinite_recursion Profiles)"
proof (cases "Profiles \<in> set active")
  case True
  then show ?thesis
    by (subst expand_policies.simps) (simp add: sublink_profiles)
next
  case False
  have "expand_policies (Profiles # active) Profiles Select = Some (Infinite_recursion Profiles)"
    by (subst expand_policies.simps) (simp add: sublink_profiles)
  with False show ?thesis
    by (subst expand_policies.simps) (simp add: sublink_profiles)
qed

lemma expand_sublink:
  "list_ex (\<lambda>p. hassublinks (pol_expr p)) (applicable t c) \<Longrightarrow>
   expand_policies [] t c = Some (Infinite_recursion Profiles)"
  by (subst expand_policies.simps) (simp add: expand_profiles)

lemma expand_no_sublink:
  "\<not> list_ex (\<lambda>p. hassublinks (pol_expr p)) (applicable t c) \<Longrightarrow>
   expand_policies active t c = None"
  by (subst expand_policies.simps) simp

text \<open>
  A statement passes the expansion only when none of its policies has a sub-select; the
  rows it then admits do not depend on \<open>profiles\<close>.
\<close>

lemma expand_none_iff:
  "expand_policies [] t c = None \<longleftrightarrow>
     \<not> list_ex (\<lambda>p. hassublinks (pol_expr p)) (applicable t c)"
  using expand_sublink [of t c] expand_no_sublink [of t c "[]"] by auto

lemma expand_select:
  "expand_policies [] Patient_details Select = Some (Infinite_recursion Profiles)"
  "expand_policies [] Surgeon_details Select = None"
  "expand_policies [] Vital_signs Select = Some (Infinite_recursion Profiles)"
  "expand_policies [] Surgical_history Select = Some (Infinite_recursion Profiles)"
  "expand_policies [] Surgical_cases Select = Some (Infinite_recursion Profiles)"
  "expand_policies [] Historical_surgical_data Select = Some (Infinite_recursion Profiles)"
  by (simp_all add: expand_sublink expand_no_sublink applicable_def applies_def policies_def)

text \<open>
  What the policies of \<open>vital_signs\<close> decide for a SELECT, read as predicates over the
  whole \<open>profiles\<close> table: a patient's own rows, and every row for a surgeon or an
  admin.
\<close>

lemma vital_signs_admitted_patient:
  assumes "profiles_pkey d" and "profile_role d c = Some ''patient''"
  shows "admitted (Some c) d Select Vital_signs =
     map Vital_signs_r (filter (\<lambda>v. vs_patient_id v = c) (vital_signs d))"
  using assms
  by (simp add: admitted_def row_permitted_def qual_vital_signs holds_role filter_map
      comp_def del: holds.simps(2))

lemma vital_signs_admitted_staff:
  assumes "profiles_pkey d"
    and "profile_role d c = Some ''surgeon'' \<or> profile_role d c = Some ''admin''"
  shows "admitted (Some c) d Select Vital_signs = table_rows d Vital_signs"
  using assms
  by (auto simp add: admitted_def row_permitted_def qual_vital_signs holds_role
      simp del: holds.simps(2))

text \<open>
  C2. A select over \<open>vital_signs\<close> should return a patient's own rows, and every row to
  a surgeon or an admin. The migration does not get that far: the FOR ALL policy of
  \<open>vital_signs\<close> reads \<open>profiles\<close>, two policies of \<open>profiles\<close> that cover SELECT read
  \<open>profiles\<close> again, and the statement is refused. Here the patient \<open>U1\<close> of the small
  database, who owns the row \<open>V1\<close>, selects from \<open>vital_signs\<close>.
\<close>

theorem vital_signs_select_refused:
  "profile_role example_db ''U1'' = Some ''patient''
   \<and> admitted (Some ''U1'') example_db Select Vital_signs =
        [Vital_signs_r (example_vital ''V1'' ''U1'')]
   \<and> select_stmt (Some ''U1'') example_db Vital_signs = Inl (Infinite_recursion Profiles)"
  by (simp add: select_stmt_def expand_select example_db_roles
      vital_signs_admitted_patient [OF example_db_pkey])
     (simp add: example_db_def example_vital_def)

text \<open>
  C6. The policy for the own profile row is true for every caller on the own row, so the
  row with the caller's role is one the caller may read. The look-up of that role
  nevertheless fails: whatever the caller, the command and the database, the expansion
  of the policies of \<open>profiles\<close> re-enters \<open>profiles\<close>, and so does every SELECT on a
  table with a policy that looks the role up.
\<close>

theorem role_lookup_refused:
  "row_permitted (Some (p_id p)) d Select (Profiles_r p)
   \<and> expand_policies [] Profiles c = Some (Infinite_recursion Profiles)
   \<and> select_stmt uid d Profiles = Inl (Infinite_recursion Profiles)
   \<and> select_stmt uid d Patient_details = Inl (Infinite_recursion Profiles)
   \<and> select_stmt uid d Vital_signs = Inl (Infinite_recursion Profiles)
   \<and> select_stmt uid d Surgical_history = Inl (Infinite_recursion Profiles)
   \<and> select_stmt uid d Surgical_cases = Inl (Infinite_recursion Profiles)
   \<and> select_stmt uid d Historical_surgical_data = Inl (Infinite_recursion Profiles)"
  by (simp add: select_stmt_def expand_profiles expand_select row_permitted_def
      qual_profiles)

lemma expand_stmt_profiles: "expand_stmt Profiles c reads = Some (Infinite_recursion Profiles)"
  by (simp add: expand_stmt_def expand_profiles)

text \<open>
  C1. The access decision should be the OR of the policies of the table for the command
  or for ALL. As predicates the policies combine that way: for the vital-sign row \<open>V1\<close>
  of patient \<open>U1\<close> the policy for the patient's own rows is true for \<open>U1\<close>, and for
  the surgeon \<open>U2\<close> the one true policy is the one declared FOR ALL. The row is
  accessible to neither: their SELECT on \<open>vital_signs\<close> is refused.
\<close>

theorem true_policy_row_refused:
  "list_ex (\<lambda>p. applies Vital_signs Select p \<and>
       holds (Some ''U1'') (profiles example_db) (Vital_signs_r (example_vital ''V1'' ''U1''))
         (pol_expr p)) policies
   \<and> map pol_name (filter (\<lambda>p. applies Vital_signs Select p \<and>
       holds (Some ''U2'') (profiles example_db) (Vital_signs_r (example_vital ''V1'' ''U1''))
         (pol_expr p)) policies) = [''Healthcare providers can manage vital signs'']
   \<and> row_permitted (Some ''U1'') example_db Select (Vital_signs_r (example_vital ''V1'' ''U1''))
   \<and> row_permitted (Some ''U2'') example_db Select (Vital_signs_r (example_vital ''V1'' ''U1''))
   \<and> select_stmt (Some ''U1'') example_db Vital_signs = Inl (Infinite_recursion Profiles)
   \<and> select_stmt (Some ''U2'') example_db Vital_signs = Inl (Infinite_recursion Profiles)"
  by (simp add: select_stmt_def expand_select row_permitted_def qual_vital_signs)
     (simp add: policies_def applies_def example_db_def example_vital_def
        example_profile_def)

text \<open>
  C8. The policies do not protect the role column of \<open>profiles\<close>: for the caller's own
  row the policies for UPDATE are true of the old row and of the new row whatever role
  the new row carries, and the check constraint accepts the role \<open>admin\<close>. The caller
  still cannot change the role: every UPDATE of \<open>profiles\<close> is refused, whoever the
  caller, whatever the database and whatever the statement sets.
\<close>

theorem own_role_update_refused:
  "row_permitted (Some (p_id p)) d Update (Profiles_r p)
   \<and> row_permitted (Some (p_id p)) d Update (Profiles_r (p\<lparr>p_role := r\<rparr>))
   \<and> row_checks (Profiles_r (p\<lparr>p_role := ''admin''\<rparr>)) = None
   \<and> update_stmt uid d Profiles wh asg ret = Inl (Infinite_recursion Profiles)"
  by (simp add: row_permitted_def qual_profiles role_check_def update_stmt_def
      expand_stmt_profiles)

text \<open>
  C9. For the surgeon \<open>U2\<close> of the small database, who is neither the surgeon nor the
  patient of the case \<open>C1\<close>, the policies deny every command on the case and admit the
  rows of \<open>vital_signs\<close> and \<open>surgical_history\<close>. The access to these two tables that
  the role should give does not come about: the surgeon's SELECT on either is refused.
\<close>

theorem surgeon_rows_refused:
  "profile_role example_db ''U2'' = Some ''surgeon''
   \<and> list_all (\<lambda>op. \<not> row_permitted (Some ''U2'') example_db op
         (Surgical_cases_r (example_case ''C1'' ''U1'' (Some ''U5''))))
       [Select, Insert, Update, Delete]
   \<and> row_permitted (Some ''U2'') example_db Select
         (Vital_signs_r (example_vital ''V1'' ''U1''))
   \<and> row_permitted (Some ''U2'') example_db Select
         (Surgical_history_r (example_history ''H1'' ''U1''))
   \<and> select_stmt (Some ''U2'') example_db Vital_signs = Inl (Infinite_recursion Profiles)
   \<and> select_stmt (Some ''U2'') example_db Surgical_history =
        Inl (Infinite_recursion Profiles)"
  using surgeon_role_decision [OF example_db_pkey example_db_roles(2),
      of "example_case ''C1'' ''U1'' (Some ''U5'')"]
  by (simp add: example_db_roles select_stmt_def expand_select example_case_def)

section \<open>Rows the policies hide\<close>

text \<open>
  The writes that pass the expansion are those on \<open>surgeon_details\<close> and, as long as
  they read no column, those on \<open>patient_details\<close>. Their policies admit the caller's
  own row and no other.
\<close>

lemma expand_stmt_passes:
  assumes "expand_stmt t c reads = None" and "c = Insert \<or> c = Update \<or> c = Delete"
  shows "t = Surgeon_details \<or> (t = Patient_details \<and> \<not> reads)"
proof -
  have "expand_policies [] t c = Some (Infinite_recursion Profiles)"
    if "t \<noteq> Surgeon_details" and "t \<noteq> Patient_details"
    using that assms(2)
    by (cases t; cases c;
        simp add: expand_profiles expand_sublink applicable_def applies_def policies_def)
  moreover have "expand_policies [] Patient_details Select = Some (Infinite_recursion Profiles)"
    by (simp add: expand_select)
  ultimately show ?thesis
    using assms(1)
    by (cases "t = Surgeon_details"; cases "t = Patient_details";
        auto simp add: expand_stmt_def split: option.splits if_splits)
qed

lemma own_rows_only:
  assumes "row_table x = Surgeon_details \<or> row_table x = Patient_details"
    and "c = Insert \<or> c = Update \<or> c = Delete"
  shows "row_permitted uid d c x \<longleftrightarrow> uid = Some (row_key x)"
  using assms
  by (cases x; cases uid;
      auto simp add: row_permitted_def security_qual_def applicable_def applies_def
        policies_def)

lemma surgeon_details_public:
  "row_table x = Surgeon_details \<Longrightarrow> row_permitted uid d Select x"
  by (cases x; simp add: row_permitted_def security_qual_def applicable_def applies_def
        policies_def)

lemma stmt_permitted_own:
  assumes "expand_stmt t c reads = None" and "c = Insert \<or> c = Update \<or> c = Delete"
    and "row_table x = t"
  shows "stmt_permitted uid d c reads x \<longleftrightarrow> uid = Some (row_key x)"
  using expand_stmt_passes [OF assms(1,2)] assms(2,3)
  by (auto simp add: stmt_permitted_def own_rows_only surgeon_details_public)

lemma row_permitted_same_profiles:
  "profiles d' = profiles d \<Longrightarrow> row_permitted uid d' c r = row_permitted uid d c r"
  by (simp add: row_permitted_def)

lemma stmt_permitted_same_profiles:
  "profiles d' = profiles d \<Longrightarrow> stmt_permitted uid d' = stmt_permitted uid d"
  by (simp add: fun_eq_iff stmt_permitted_def row_permitted_def)

lemma same_profiles:
  assumes "\<forall>t'. t' \<noteq> t \<longrightarrow> table_rows d' t' = table_rows d t'" and "t \<noteq> Profiles"
  shows "profiles d' = profiles d"
proof -
  from assms have "map Profiles_r (profiles d') = map Profiles_r (profiles d)"
    by (metis table_rows.simps(1))
  moreover have "inj Profiles_r"
    by (simp add: inj_def)
  ultimately show ?thesis
    using inj_map_eq_map by blast
qed

lemma row_table_member: "r \<in> set (table_rows d t) \<Longrightarrow> row_table r = t"
  by (cases t) auto

lemma row_fkeys_same:
  assumes "profiles d' = profiles d" and "auth_users d' = auth_users d"
  shows "row_fkeys d' = row_fkeys d"
proof -
  from assms have ref: "referenced d' = referenced d"
    by (simp add: fun_eq_iff referenced_def)
  have fk: "fkey_error d' = fkey_error d"
    by (simp add: fun_eq_iff fkey_error_def ref split: option.splits)
  show ?thesis
    by (simp add: fun_eq_iff row_fkeys_def fk)
qed

text \<open>
  An UPDATE that skips a row \<open>r\<close> goes the same way with and without \<open>r\<close> in the
  table, provided the check of a new row does not see \<open>r\<close>.
\<close>

lemma update_rows_skip:
  assumes same: "\<And>os os' x. set os' = insert r (set os) \<Longrightarrow> chk os' x = chk os x"
    and skip: "\<not> hit r"
  shows "set seen' = insert r (set seen) \<Longrightarrow>
     update_rows hit f chk seen' ys = update_rows hit f chk seen ys"
proof (induction ys arbitrary: seen seen')
  case Nil
  then show ?case by simp
next
  case (Cons y ys)
  have "chk (seen' @ ys) (f y) = chk (seen @ ys) (f y)"
    by (rule same) (use Cons.prems in auto)
  moreover have "update_rows hit f chk (seen' @ [z]) ys = update_rows hit f chk (seen @ [z]) ys"
    for z
    by (rule Cons.IH) (use Cons.prems in auto)
  ultimately show ?case
    by (simp split: option.splits sum.splits)
qed

lemma update_rows_hidden:
  assumes same: "\<And>os os' x. set os' = insert r (set os) \<Longrightarrow> chk os' x = chk os x"
    and skip: "\<not> hit r"
  shows "update_rows hit f chk seen (xs @ r # ys) = update_rows hit f chk seen (xs @ ys)"
proof (induction xs arbitrary: seen)
  case Nil
  have "update_rows hit f chk (seen @ [r]) ys = update_rows hit f chk seen ys"
  proof (rule update_rows_skip [where r = r and chk = chk and hit = hit])
    show "chk os' x = chk os x" if "set os' = insert r (set os)" for os os' x
      using that by (rule same)
  qed (use skip in auto)
  with skip show ?case
    by simp
next
  case (Cons x xs)
  have "chk (seen @ xs @ r # ys) (f x) = chk (seen @ xs @ ys) (f x)"
    by (rule same) auto
  with Cons.IH show ?case
    by (simp split: option.splits sum.splits)
qed

lemma row_unique_hidden:
  assumes "set os' = insert r (set os)"
    and "row_email r = None"
    and "row_table r = row_table x \<Longrightarrow> row_key r \<noteq> row_key x"
  shows "row_unique os' x = row_unique os x"
proof -
  have "list_ex P os' = (P r \<or> list_ex P os)" for P
    using assms(1) by (auto simp add: list_ex_iff)
  with assms(2,3) show ?thesis
    by (auto simp add: row_unique_def)
qed

lemma new_row_error_hidden:
  assumes pass: "expand_stmt t Update reads = None"
    and r: "row_table r = t" and hidden: "\<not> stmt_permitted uid d Update reads r"
    and os: "set os' = insert r (set os)"
  shows "new_row_error uid d t reads os' x = new_row_error uid d t reads os x"
proof (cases "stmt_permitted uid d Update reads x")
  case False
  then show ?thesis
    by (cases "row_ranges x"; simp add: new_row_error_def)
next
  case True
  from expand_stmt_passes [OF pass] r have "row_email r = None"
    by (cases r) auto
  moreover have "row_key r \<noteq> row_key x" if "row_table r = row_table x"
  proof -
    from that r have "row_table x = t" by simp
    with True hidden r stmt_permitted_own [OF pass, of x uid d]
      stmt_permitted_own [OF pass, of r uid d]
    show ?thesis by auto
  qed
  ultimately have "row_unique os' x = row_unique os x"
    using os by (intro row_unique_hidden) auto
  then show ?thesis
    by (simp add: new_row_error_def)
qed

lemma hidden_profile_lookup:
  assumes "profiles d' = xs @ p # ys" and "profiles d = xs @ ys"
    and "\<not> row_permitted uid d' c (Profiles_r p)"
  shows "row_permitted uid d' c (Profiles_r q) = row_permitted uid d c (Profiles_r q)"
  using assms
  by (cases c; cases uid; auto simp add: row_permitted_def qual_profiles)

lemma admitted_hidden:
  assumes present: "table_rows d' t = xs @ r # ys"
    and absent: "table_rows d t = xs @ ys"
    and others: "\<forall>t'. t' \<noteq> t \<longrightarrow> table_rows d' t' = table_rows d t'"
    and hidden: "\<not> row_permitted uid d' c r"
  shows "admitted uid d' c t = admitted uid d c t"
proof -
  have same: "row_permitted uid d' c x = row_permitted uid d c x"
    if "x \<in> set xs \<union> set ys" for x
  proof (cases "t = Profiles")
    case False
    with others have "profiles d' = profiles d" by (rule same_profiles)
    then show ?thesis
      by (rule row_permitted_same_profiles)
  next
    case True
    from present True obtain xs' p ys' where
      d': "profiles d' = xs' @ p # ys'" and xs: "xs = map Profiles_r xs'"
      and r: "r = Profiles_r p" and ys: "ys = map Profiles_r ys'"
      by (auto simp add: map_eq_append_conv map_eq_Cons_conv)
    from absent True xs ys have "map Profiles_r (profiles d) = map Profiles_r (xs' @ ys')"
      by simp
    moreover have "inj Profiles_r"
      by (simp add: inj_def)
    ultimately have d: "profiles d = xs' @ ys'"
      using inj_map_eq_map by blast
    from that xs ys obtain q where "x = Profiles_r q"
      by auto
    with hidden_profile_lookup [OF d' d] hidden r show ?thesis
      by simp
  qed
  have "admitted uid d' c t =
      filter (row_permitted uid d' c) xs @ filter (row_permitted uid d' c) ys"
    using present hidden by (simp add: admitted_def)
  also have "\<dots> = filter (row_permitted uid d c) xs @ filter (row_permitted uid d c) ys"
    using same by (simp cong: filter_cong)
  also have "\<dots> = admitted uid d c t"
    using absent by (simp add: admitted_def)
  finally show ?thesis .
qed

text \<open>
  C7. A row that the policies do not admit cannot be told from a row that does not
  exist. Take two databases that differ in one row \<open>r\<close> of table \<open>t\<close>, present in
  \<open>d'\<close> and absent in \<open>d\<close>. If the policies do not admit \<open>r\<close> for a command, the rows
  they admit for that command are the same in both. A SELECT on \<open>t\<close> returns the same
  result in both. A DELETE and an UPDATE on \<open>t\<close>, whatever the WHERE clause, the new
  values and the RETURNING clause, have the same outcome in both, the same rows or the
  same error, when their policies do not admit \<open>r\<close>; so does an INSERT into \<open>t\<close> of any
  row, which cannot collide with \<open>r\<close>.
\<close>

theorem hidden_row_unobservable:
  assumes present: "table_rows d' t = xs @ r # ys"
    and absent: "table_rows d t = xs @ ys"
    and others: "\<forall>t'. t' \<noteq> t \<longrightarrow> table_rows d' t' = table_rows d t'"
    and users: "auth_users d' = auth_users d"
  shows "(\<not> row_permitted uid d' c r \<longrightarrow> admitted uid d' c t = admitted uid d c t)
     \<and> (\<not> row_permitted uid d' Select r \<longrightarrow> select_stmt uid d' t = select_stmt uid d t)
     \<and> (\<not> stmt_permitted uid d' Delete (where_reads wh \<or> ret) r \<longrightarrow>
          delete_stmt uid d' t wh ret = delete_stmt uid d t wh ret)
     \<and> (\<not> stmt_permitted uid d' Update (where_reads wh \<or> set_reads asg \<or> ret) r \<longrightarrow>
          update_stmt uid d' t wh asg ret = update_stmt uid d t wh asg ret)
     \<and> (row_table x = t \<and> \<not> stmt_permitted uid d' Insert ret r \<longrightarrow>
          insert_stmt uid d' x ret = insert_stmt uid d x ret)"
proof -
  note eq = admitted_hidden [OF present absent others]
  have r: "row_table r = t"
    using present by (intro row_table_member [of r d']) simp
  have sel: "select_stmt uid d' t = select_stmt uid d t"
    if "\<not> row_permitted uid d' Select r"
    using eq [OF that] by (simp add: select_stmt_def split: option.splits)
  have del: "delete_stmt uid d' t wh ret = delete_stmt uid d t wh ret"
    if "\<not> stmt_permitted uid d' Delete (where_reads wh \<or> ret) r"
  proof (cases "t = Profiles")
    case True
    then show ?thesis
      by (simp add: delete_stmt_def expand_stmt_profiles)
  next
    case False
    with others have "profiles d' = profiles d" by (rule same_profiles)
    then have "stmt_permitted uid d' = stmt_permitted uid d"
      by (rule stmt_permitted_same_profiles)
    with that present absent show ?thesis
      by (simp add: delete_stmt_def Let_def split: option.splits)
  qed
  have upd: "update_stmt uid d' t wh asg ret = update_stmt uid d t wh asg ret"
    if hid: "\<not> stmt_permitted uid d' Update (where_reads wh \<or> set_reads asg \<or> ret) r"
  proof (cases "expand_stmt t Update (where_reads wh \<or> set_reads asg \<or> ret)")
    case (Some e)
    then show ?thesis
      by (simp add: update_stmt_def Let_def)
  next
    case None
    then have "t \<noteq> Profiles"
      by (auto simp add: expand_stmt_profiles)
    with others have p: "profiles d' = profiles d" by (rule same_profiles)
    then have sp: "stmt_permitted uid d' = stmt_permitted uid d"
      by (rule stmt_permitted_same_profiles)
    then have nre: "new_row_error uid d' = new_row_error uid d"
      by (simp add: fun_eq_iff new_row_error_def)
    let ?reads = "where_reads wh \<or> set_reads asg \<or> ret"
    let ?hit = "\<lambda>r. stmt_permitted uid d Update ?reads r \<and> where_holds wh r"
    have rows:
      "update_rows ?hit (set_row asg) (new_row_error uid d t ?reads) [] (xs @ r # ys) =
       update_rows ?hit (set_row asg) (new_row_error uid d t ?reads) [] (xs @ ys)"
    proof (rule update_rows_hidden [where r = r])
      show "new_row_error uid d t ?reads os' y = new_row_error uid d t ?reads os y"
        if "set os' = insert r (set os)" for os os' y
        using None r hid that unfolding sp by (rule new_row_error_hidden)
      show "\<not> ?hit r"
        using hid sp by simp
    qed
    show ?thesis
      unfolding update_stmt_def Let_def present absent sp nre row_fkeys_same [OF p users] rows
      by (rule refl)
  qed
  have ins: "insert_stmt uid d' x ret = insert_stmt uid d x ret"
    if x: "row_table x = t" and hid: "\<not> stmt_permitted uid d' Insert ret r"
  proof (cases "expand_stmt t Insert ret")
    case (Some e)
    with x show ?thesis
      by (simp add: insert_stmt_def)
  next
    case None
    then have "t \<noteq> Profiles"
      by (auto simp add: expand_stmt_profiles)
    with others have p: "profiles d' = profiles d" by (rule same_profiles)
    then have sp: "stmt_permitted uid d' = stmt_permitted uid d"
      by (rule stmt_permitted_same_profiles)
    have uniq: "row_unique (xs @ r # ys) x = row_unique (xs @ ys) x"
      if ok: "stmt_permitted uid d Insert ret x"
    proof (rule row_unique_hidden)
      show "set (xs @ r # ys) = insert r (set (xs @ ys))"
        by auto
      from expand_stmt_passes [OF None] r show "row_email r = None"
        by (cases r) auto
      from ok hid x r stmt_permitted_own [OF None, of x uid d]
        stmt_permitted_own [OF None, of r uid d]
      show "row_key r \<noteq> row_key x"
        unfolding sp by auto
    qed
    show ?thesis
    proof (cases "stmt_permitted uid d Insert ret x")
      case True
      with None x present absent sp uniq row_fkeys_same [OF p users] show ?thesis
        by (simp add: insert_stmt_def)
    next
      case False
      with None x sp show ?thesis
        by (cases "row_ranges x"; simp add: insert_stmt_def)
    qed
  qed
  from eq sel del upd ins show ?thesis
    by blast
qed

text \<open>
  The patient \<open>U1\<close> deletes from \<open>patient_details\<close> without a WHERE clause, and
  inserts a second row of their own, once with the row of patient \<open>U4\<close> in the table
  and once without it: the delete removes the row of \<open>U1\<close> both times, the insert
  fails on the primary key both times.
\<close>

theorem hidden_row_unobservable_witness:
  "\<not> stmt_permitted (Some ''U1'')
       (example_db\<lparr>patient_details := [example_details ''U1'', example_details ''U4'']\<rparr>)
       Delete False (Patient_details_r (example_details ''U4''))
   \<and> delete_stmt (Some ''U1'')
       (example_db\<lparr>patient_details := [example_details ''U1'', example_details ''U4'']\<rparr>)
       Patient_details No_where False =
     delete_stmt (Some ''U1'') (example_db\<lparr>patient_details := [example_details ''U1'']\<rparr>)
       Patient_details No_where False
   \<and> delete_stmt (Some ''U1'') (example_db\<lparr>patient_details := [example_details ''U1'']\<rparr>)
       Patient_details No_where False = Inr [Patient_details_r (example_details ''U1'')]
   \<and> insert_stmt (Some ''U1'')
       (example_db\<lparr>patient_details := [example_details ''U1'', example_details ''U4'']\<rparr>)
       (Patient_details_r (example_details ''U1'')) False =
     insert_stmt (Some ''U1'') (example_db\<lparr>patient_details := [example_details ''U1'']\<rparr>)
       (Patient_details_r (example_details ''U1'')) False
   \<and> insert_stmt (Some ''U1'') (example_db\<lparr>patient_details := [example_details ''U1'']\<rparr>)
       (Patient_details_r (example_details ''U1'')) False =
     Inl (Unique_violation ''patient_details_pkey'')"
proof -
  let ?d' = "example_db\<lparr>patient_details := [example_details ''U1'', example_details ''U4'']\<rparr>"
  let ?d = "example_db\<lparr>patient_details := [example_details ''U1'']\<rparr>"
  let ?r = "Patient_details_r (example_details ''U4'')"
  let ?own = "Patient_details_r (example_details ''U1'')"
  have present: "table_rows ?d' Patient_details = [?own] @ ?r # []"
    by simp
  have absent: "table_rows ?d Patient_details = [?own] @ []"
    by simp
  have others: "\<forall>t'. t' \<noteq> Patient_details \<longrightarrow> table_rows ?d' t' = table_rows ?d t'"
  proof (intro allI impI)
    fix t' :: tbl
    assume "t' \<noteq> Patient_details"
    then show "table_rows ?d' t' = table_rows ?d t'"
      by (cases t') simp_all
  qed
  have users: "auth_users ?d' = auth_users ?d"
    by simp
  have pass: "expand_stmt Patient_details c False = None" if "c = Delete \<or> c = Insert" for c
    using that
    by (auto simp add: expand_stmt_def expand_no_sublink applicable_def applies_def
        policies_def)
  have own: "row_permitted (Some ''U1'') db0 c (Patient_details_r (example_details i))
      \<longleftrightarrow> i = ''U1''" if "c = Delete \<or> c = Insert" for c i db0
    using that own_rows_only [of "Patient_details_r (example_details i)" c "Some ''U1''" db0]
    by (auto simp add: example_details_def)
  have hidden: "\<not> stmt_permitted (Some ''U1'') ?d' c False ?r" if "c = Delete \<or> c = Insert"
    for c
    using own [OF that] by (simp add: stmt_permitted_def)
  have del: "delete_stmt (Some ''U1'') ?d Patient_details No_where False = Inr [?own]"
    by (simp add: delete_stmt_def pass stmt_permitted_def own)
  have ins: "insert_stmt (Some ''U1'') ?d ?own False =
      Inl (Unique_violation ''patient_details_pkey'')"
    by (simp add: insert_stmt_def pass stmt_permitted_def own row_unique_def)
  from hidden_row_unobservable [OF present absent others users, of "Some ''U1''" Delete
      No_where False "Set_values id" ?own] hidden del ins
  show ?thesis
    by simp
qed

section \<open>Provisioning a profile at signup\<close>

text \<open>
  C4, as the migration has it. For a new identity (an id that \<open>auth.users\<close> does not
  hold yet, every profile belonging to an identity) with an email that no profile uses
  and with metadata whose role, \<open>patient\<close> when the key is absent or JSON null, is one of
  patient, surgeon and admin, signup creates exactly one profile row: the id and email
  of the identity, the full name of the metadata or \<open>Unknown User\<close> when the key is
  absent or JSON null, and that role. With empty metadata the row has the full name
  \<open>Unknown User\<close> and the role \<open>patient\<close>.
\<close>

theorem provisioning_creates_profile:
  assumes "au_email new = Some e"
    and "au_raw_user_meta_data new = Some m"
    and "au_id new \<notin> set (map au_id (auth_users d))"
    and "set (map p_id (profiles d)) \<subseteq> set (map au_id (auth_users d))"
    and "e \<notin> set (map p_email (profiles d))"
    and "role = (case m ''role'' of Some (JString s) \<Rightarrow> s | Some (JOther s) \<Rightarrow> s
           | _ \<Rightarrow> ''patient'')"
    and "full_name = (case m ''full_name'' of Some (JString s) \<Rightarrow> s | Some (JOther s) \<Rightarrow> s
           | _ \<Rightarrow> ''Unknown User'')"
    and "role \<in> {''patient'', ''surgeon'', ''admin''}"
  shows "insert_auth_users now d new =
     (None, d\<lparr>auth_users := auth_users d @ [new],
              profiles := profiles d @
                [\<lparr>p_id = au_id new, p_email = e, p_full_name = full_name, p_role = role,
                  p_profile_picture_url = None, p_created_at = now,
                  p_updated_at = now\<rparr>]\<rparr>)"
proof -
  have r: "coalesce (json_field_text (au_raw_user_meta_data new) ''role'') ''patient'' = role"
    using assms(2,6)
    by (simp add: coalesce_def json_field_text_def split: option.splits jvalue.splits)
  have n: "coalesce (json_field_text (au_raw_user_meta_data new) ''full_name'')
      ''Unknown User'' = full_name"
    using assms(2,7)
    by (simp add: coalesce_def json_field_text_def split: option.splits jvalue.splits)
  have fresh: "au_id new \<notin> set (map p_id (profiles d))"
    using assms(3,4) by blast
  have chk: "role_check role"
    using assms(8) by (simp add: role_check_def)
  show ?thesis
    using assms(1,3,5) fresh chk
    by (simp add: insert_auth_users_def handle_new_user_def insert_profiles_def r n)
qed

theorem provisioning_creates_profile_witness:
  "insert_auth_users 7 example_db (example_user ''U9'' (Some Map.empty)) =
     (None, example_db\<lparr>auth_users := auth_users example_db @
                [example_user ''U9'' (Some Map.empty)],
              profiles := profiles example_db @
                [\<lparr>p_id = ''U9'', p_email = ''U9@x.com'', p_full_name = ''Unknown User'',
                  p_role = ''patient'',
                  p_profile_picture_url = None, p_created_at = 7, p_updated_at = 7\<rparr>]\<rparr>)"
  using provisioning_creates_profile [of "example_user ''U9'' (Some Map.empty)"
      "''U9@x.com''" Map.empty example_db "''patient''" "''Unknown User''" 7]
  by (simp add: example_user_def example_db_def example_profile_def)

text \<open>
  C4 as the spec words it, for every new identity with an id, an email and a metadata
  map, fails on three inputs. Metadata with the role \<open>nurse\<close> creates no row. An
  identity whose email a profile already uses creates no row. Metadata that holds the
  key \<open>full_name\<close> with JSON null gives the full name \<open>Unknown User\<close>, not the value
  under the key.
\<close>

theorem provisioning_counterexample:
  "insert_auth_users 7 example_db
      (example_user ''U9'' (Some [''role'' \<mapsto> JString ''nurse''])) =
     (Some (Check_violation ''profiles_role_check''), example_db)
   \<and> insert_auth_users 7 example_db
      \<lparr>au_id = ''U9'', au_email = Some ''U1@x.com'',
       au_raw_user_meta_data = Some Map.empty\<rparr> =
     (Some (Unique_violation ''profiles_email_key''), example_db)
   \<and> map p_full_name (profiles (snd (insert_auth_users 7 example_db
      (example_user ''U9'' (Some [''full_name'' \<mapsto> JNull]))))) =
     [''Name of U1'', ''Name of U2'', ''Name of U3'', ''Unknown User'']"
  by (simp add: insert_auth_users_def handle_new_user_def insert_profiles_def coalesce_def
      json_field_text_def role_check_def example_user_def example_db_def
      example_profile_def)

text \<open>
  C5. When the metadata of a new identity supplies a role other than patient, surgeon
  and admin, the insert of the trigger fails in every database, and the creation of the
  identity fails with it and leaves the database as it was: no profile row and no
  identity.
\<close>

theorem invalid_role_aborts_signup:
  assumes "json_field_text (au_raw_user_meta_data new) ''role'' = Some r"
    and "r \<notin> {''patient'', ''surgeon'', ''admin''}"
  shows "(\<exists>e. handle_new_user now d0 new = Inl e)
     \<and> (\<exists>e. insert_auth_users now d new = (Some e, d))"
proof -
  have "\<exists>e. handle_new_user now x new = Inl e" for x
    using assms
    by (simp add: handle_new_user_def insert_profiles_def coalesce_def role_check_def
        split: option.splits)
  then obtain e0 e1 where "handle_new_user now d0 new = Inl e0"
    and "handle_new_user now (d\<lparr>auth_users := auth_users d @ [new]\<rparr>) new = Inl e1"
    by blast
  then show ?thesis
    by (simp add: insert_auth_users_def)
qed

theorem invalid_role_aborts_signup_witness:
  "json_field_text
       (au_raw_user_meta_data (example_user ''U9'' (Some [''role'' \<mapsto> JString ''nurse''])))
       ''role'' = Some ''nurse''
   \<and> ''nurse'' \<notin> {''patient'', ''surgeon'', ''admin''}
   \<and> (\<exists>e. insert_auth_users 7 example_db
         (example_user ''U9'' (Some [''role'' \<mapsto> JString ''nurse''])) = (Some e, example_db))"
  using invalid_role_aborts_signup [of
      "example_user ''U9'' (Some [''role'' \<mapsto> JString ''nurse''])" "''nurse''" 7
      example_db example_db]
  by (simp add: json_field_text_def example_user_def)

end
